theory Spec2Isabelle
  imports Complex_Main
begin

section \<open>The image mark of the chart editor (src/core/prototypes/marks/image.ts)\<close>

text \<open>
  A shallow embedding of \<^verbatim>\<open>ImageElementClass\<close>. A JavaScript \<^verbatim>\<open>number\<close> is read as
  a real number: the arithmetic of the class (a sum halved, a difference, an absolute
  value) is modelled exactly, without the rounding, the infinities and the NaN of IEEE
  doubles. The services the class calls (the solver, the coordinate system, the resource
  resolver, the graphics helpers) live in other modules; each one is a parameter or a
  definition marked as modelled from the specification.
\<close>

subsection \<open>Attribute values and the attribute store\<close>

text \<open>A colour of the common module; the class only stores it and hands it on.\<close>

datatype Color = Color real real real

text \<open>
  The object \<^verbatim>\<open>this.state.attributes\<close> at run time: a dictionary from attribute names
  to values. A name that is not in the dictionary reads as \<^verbatim>\<open>undefined\<close>.
\<close>

datatype AttributeValue =
    Number real
  | Text string
  | Boolean bool
  | ColorValue Color
  | Null

type_synonym AttributeMap = "string \<rightharpoonup> AttributeValue"

text \<open>
  The interface \<^verbatim>\<open>ImageElementAttributes\<close>, as the methods of the class read it: every
  field present, with its declared kind. The field \<^verbatim>\<open>image\<close> is written \<open>image'\<close>
  (\<open>image\<close> is a constant of HOL); \<open>None\<close> is JavaScript's \<^verbatim>\<open>null\<close>.
\<close>

record ImageElementAttributes =
  x1 :: real
  y1 :: real
  x2 :: real
  y2 :: real
  cx :: real
  cy :: real
  width :: real
  height :: real
  stroke :: "Color option"
  fill :: "Color option"
  strokeWidth :: real
  opacity :: real
  visible :: bool
  image' :: "string option"

text \<open>
  Modelled from the spec: \<^verbatim>\<open>imageAttributes\<close> (module image.attrs, not under src/) declares
  the attributes of the mark; the specification lists them as the corners, the centre,
  the size, the style attributes and the image payload.
\<close>

definition attributeNames :: "string list" where
  "attributeNames =
     [''x1'', ''y1'', ''x2'', ''y2'', ''cx'', ''cy'', ''width'', ''height'',
      ''stroke'', ''fill'', ''strokeWidth'', ''opacity'', ''visible'', ''image'']"

text \<open>Reading one attribute of the dictionary at its declared kind.\<close>

definition number_at :: "AttributeMap \<Rightarrow> string \<Rightarrow> real option" where
  "number_at m k = (case m k of Some (Number v) \<Rightarrow> Some v | _ \<Rightarrow> None)"

definition boolean_at :: "AttributeMap \<Rightarrow> string \<Rightarrow> bool option" where
  "boolean_at m k = (case m k of Some (Boolean v) \<Rightarrow> Some v | _ \<Rightarrow> None)"

definition color_at :: "AttributeMap \<Rightarrow> string \<Rightarrow> Color option option" where
  "color_at m k =
     (case m k of Some (ColorValue c) \<Rightarrow> Some (Some c) | Some Null \<Rightarrow> Some None | _ \<Rightarrow> None)"

definition text_at :: "AttributeMap \<Rightarrow> string \<Rightarrow> string option option" where
  "text_at m k =
     (case m k of Some (Text s) \<Rightarrow> Some (Some s) | Some Null \<Rightarrow> Some None | _ \<Rightarrow> None)"

text \<open>
  The typed view of a dictionary: defined exactly when every field of the interface is
  present with its kind, and then the record the methods of the class work on.
\<close>

definition typed_attributes :: "AttributeMap \<Rightarrow> ImageElementAttributes option" where
  "typed_attributes m =
     (case (number_at m ''x1'', number_at m ''y1'', number_at m ''x2'', number_at m ''y2'')
      of (Some a1, Some b1, Some a2, Some b2) \<Rightarrow>
        (case (number_at m ''cx'', number_at m ''cy'',
               number_at m ''width'', number_at m ''height'')
         of (Some c, Some d, Some w, Some h) \<Rightarrow>
           (case (color_at m ''stroke'', color_at m ''fill'',
                  number_at m ''strokeWidth'', number_at m ''opacity'')
            of (Some s, Some f, Some sw, Some op) \<Rightarrow>
              (case (boolean_at m ''visible'', text_at m ''image'')
               of (Some v, Some i) \<Rightarrow>
                 Some \<lparr> x1 = a1, y1 = b1, x2 = a2, y2 = b2, cx = c, cy = d,
                        width = w, height = h, stroke = s, fill = f,
                        strokeWidth = sw, opacity = op, visible = v, image' = i \<rparr>
               | _ \<Rightarrow> None)
            | _ \<Rightarrow> None)
         | _ \<Rightarrow> None)
      | _ \<Rightarrow> None)"

subsection \<open>initializeState\<close>

text \<open>
  The method assigns fourteen fields of the store, in this order; whatever else the store
  held stays. It has no branch and no call that can fail.
\<close>

definition initializeState :: "AttributeMap \<Rightarrow> AttributeMap" where
  "initializeState attrs =
     (let defaultWidth = (30 :: real);
          defaultHeight = (50 :: real)
      in attrs
          (''x1'' \<mapsto> Number (- defaultWidth / 2),
           ''y1'' \<mapsto> Number (- defaultHeight / 2),
           ''x2'' \<mapsto> Number (defaultWidth / 2),
           ''y2'' \<mapsto> Number (defaultHeight / 2),
           ''cx'' \<mapsto> Number 0,
           ''cy'' \<mapsto> Number 0,
           ''width'' \<mapsto> Number defaultWidth,
           ''height'' \<mapsto> Number defaultHeight,
           ''stroke'' \<mapsto> Null,
           ''fill'' \<mapsto> Null,
           ''strokeWidth'' \<mapsto> Number 1,
           ''opacity'' \<mapsto> Number 1,
           ''visible'' \<mapsto> Boolean True,
           ''image'' \<mapsto> Text ''''))"

subsection \<open>The solver and buildConstraints\<close>

text \<open>
  Modelled from the spec: \<^verbatim>\<open>ConstraintStrength\<close> is an enumeration of the solver module
  (not under src/). The specification asks for a HARD (required) tier; the other tiers
  are the solver's weaker priorities.
\<close>

datatype ConstraintStrength = HARD | STRONG | MEDIUM | WEAK | WEAKER

text \<open>One call of \<^verbatim>\<open>addLinear(strength, bias, lhs, rhs)\<close>, as the solver receives it.\<close>

record 'v LinearConstraint =
  strength :: ConstraintStrength
  bias :: real
  lhs :: "(real \<times> 'v) list"
  rhs :: "(real \<times> 'v) list"

text \<open>
  The solver, seen from the mark: \<open>attr\<close> gives the variable handle the solver binds to a
  named attribute of a store, and \<open>linears\<close> holds the equations registered so far, oldest
  first. Handles are of any type \<open>'v\<close>.
\<close>

record 'v ConstraintSolver =
  attr :: "ImageElementAttributes \<Rightarrow> string \<Rightarrow> 'v"
  linears :: "'v LinearConstraint list"

text \<open>
  Modelled from the spec: \<^verbatim>\<open>attrs(store, names[])\<close> returns the variable handles of the
  named attributes, one per name, in the order of the names.
\<close>

definition attrs :: "'v ConstraintSolver \<Rightarrow> ImageElementAttributes \<Rightarrow> string list \<Rightarrow> 'v list" where
  "attrs solver store names = map (attr solver store) names"

text \<open>
  Modelled from the spec: \<^verbatim>\<open>addLinear(strength, constant, lhsTerms[], rhsTerms[])\<close>
  registers one linear equation with the solver and changes nothing else.
\<close>

definition addLinear ::
  "ConstraintStrength \<Rightarrow> real \<Rightarrow> (real \<times> 'v) list \<Rightarrow> (real \<times> 'v) list \<Rightarrow>
   'v ConstraintSolver \<Rightarrow> 'v ConstraintSolver" where
  "addLinear s c l r solver =
     solver \<lparr> linears := linears solver @
       [\<lparr> strength = s, bias = c, lhs = l, rhs = r \<rparr>] \<rparr>"

text \<open>
  Modelled from the spec: the meaning of a registered equation under an assignment of
  numbers to the variable handles. The solver documents
  \<^verbatim>\<open>addLinear\<close> as "bias + linear(lhs) == linear(rhs)".
\<close>

definition linear :: "('v \<Rightarrow> real) \<Rightarrow> (real \<times> 'v) list \<Rightarrow> real" where
  "linear \<rho> terms = sum_list (map (\<lambda>(k, v). k * \<rho> v) terms)"

definition holds :: "('v \<Rightarrow> real) \<Rightarrow> 'v LinearConstraint \<Rightarrow> bool" where
  "holds \<rho> c = (bias c + linear \<rho> (lhs c) = linear \<rho> (rhs c))"

text \<open>
  The method destructures the eight handles it asked for and registers four equations.
  The last branch of the \<open>case\<close> is the one a list of another length would take; \<open>attrs\<close>
  returns eight handles for eight names, so it is never taken.
\<close>

definition buildConstraints ::
  "ImageElementAttributes \<Rightarrow> 'v ConstraintSolver \<Rightarrow> 'v ConstraintSolver" where
  "buildConstraints attributes solver =
     (case attrs solver attributes
             [''x1'', ''y1'', ''x2'', ''y2'', ''cx'', ''cy'', ''width'', ''height'']
      of [vx1, vy1, vx2, vy2, vcx, vcy, vwidth, vheight] \<Rightarrow>
           addLinear HARD 0 [(2, vcy)] [(1, vy1), (1, vy2)]
             (addLinear HARD 0 [(2, vcx)] [(1, vx1), (1, vx2)]
               (addLinear HARD 0 [(1, vy2), (-1, vy1)] [(1, vheight)]
                 (addLinear HARD 0 [(1, vx2), (-1, vx1)] [(1, vwidth)] solver)))
       | _ \<Rightarrow> solver)"

text \<open>The part of an equation that is not a variable binding.\<close>

definition coefficients :: "'v LinearConstraint \<Rightarrow> ConstraintStrength \<times> real \<times> real list \<times> real list" where
  "coefficients c = (strength c, bias c, map fst (lhs c), map fst (rhs c))"

text \<open>The equations a call of \<open>buildConstraints\<close> adds to the ones already registered.\<close>

definition emitted :: "ImageElementAttributes \<Rightarrow> 'v ConstraintSolver \<Rightarrow> 'v LinearConstraint list" where
  "emitted attributes solver =
     drop (length (linears solver)) (linears (buildConstraints attributes solver))"

subsection \<open>getBoundingBox\<close>

datatype BoundingBox =
  Rectangle (bb_cx: real) (bb_cy: real) (bb_width: real) (bb_height: real) (bb_rotation: real)

definition getBoundingBox :: "ImageElementAttributes \<Rightarrow> BoundingBox" where
  "getBoundingBox attributes =
     (let a1 = x1 attributes; b1 = y1 attributes; a2 = x2 attributes; b2 = y2 attributes
      in Rectangle ((a1 + a2) / 2) ((b1 + b2) / 2) \<bar>a2 - a1\<bar> \<bar>b2 - b1\<bar> 0)"

subsection \<open>getHandles\<close>

text \<open>
  A write action of a handle (\<^verbatim>\<open>type: "attribute"\<close>): the attribute it writes and, on a
  point handle, the coordinate of the dragged point it takes the value from. \<open>None\<close> is
  an action that names no source.
\<close>

datatype HandleAction = AttributeAction (source: "string option") (attribute: string)

datatype Handle =
    HandleLine (axis: string) (line_actions: "HandleAction list") (val: real) (span: "real \<times> real")
  | HandlePoint (point_x: real) (point_y: real) (point_actions: "HandleAction list")

definition getHandles :: "ImageElementAttributes \<Rightarrow> Handle list" where
  "getHandles attributes =
     (let a1 = x1 attributes; b1 = y1 attributes; a2 = x2 attributes; b2 = y2 attributes
      in [HandleLine ''x'' [AttributeAction None ''x1''] a1 (b1, b2),
          HandleLine ''x'' [AttributeAction None ''x2''] a2 (b1, b2),
          HandleLine ''y'' [AttributeAction None ''y1''] b1 (a1, a2),
          HandleLine ''y'' [AttributeAction None ''y2''] b2 (a1, a2),
          HandlePoint a1 b1
            [AttributeAction (Some ''x'') ''x1'', AttributeAction (Some ''y'') ''y1''],
          HandlePoint a1 b2
            [AttributeAction (Some ''x'') ''x1'', AttributeAction (Some ''y'') ''y2''],
          HandlePoint a2 b1
            [AttributeAction (Some ''x'') ''x2'', AttributeAction (Some ''y'') ''y1''],
          HandlePoint a2 b2
            [AttributeAction (Some ''x'') ''x2'', AttributeAction (Some ''y'') ''y2'']])"

definition is_line :: "Handle \<Rightarrow> bool" where
  "is_line h = (case h of HandleLine _ _ _ _ \<Rightarrow> True | HandlePoint _ _ _ \<Rightarrow> False)"

definition is_point :: "Handle \<Rightarrow> bool" where
  "is_point h = (case h of HandleLine _ _ _ _ \<Rightarrow> False | HandlePoint _ _ _ \<Rightarrow> True)"

text \<open>The attributes a handle's actions write, in the order of the actions.\<close>

definition written :: "Handle \<Rightarrow> string list" where
  "written h =
     (case h of HandleLine _ as _ _ \<Rightarrow> map attribute as
              | HandlePoint _ _ as \<Rightarrow> map attribute as)"

subsection \<open>getDropZones\<close>

text \<open>A point of the common module: the fields \<^verbatim>\<open>x\<close> and \<^verbatim>\<open>y\<close>, written \<open>pt_x\<close> and
  \<open>pt_y\<close>.\<close>

record Point =
  pt_x :: real
  pt_y :: real

text \<open>
  Modelled from the spec: \<^verbatim>\<open>DataKind\<close> and \<^verbatim>\<open>AttributeType\<close> are enumerations of the
  specification module (not under src/); the class uses the members
  \<^verbatim>\<open>Numerical\<close> and \<^verbatim>\<open>Number\<close>.
\<close>

datatype DataKind = Numerical | Categorical | Ordinal | Temporal

datatype AttributeType = NumberType | EnumType | TextType | BooleanType | ColorType | ImageType

text \<open>
  A line drop zone: its two end points, its title, the kind of data it accepts
  (\<^verbatim>\<open>accept.kind\<close>) and its drop action, a scale inference on an attribute of a type,
  with the hint \<^verbatim>\<open>autoRange\<close>.
\<close>

datatype DropAction =
  ScaleInference (inferred_attribute: string) (attributeType: AttributeType) (autoRange: bool)

datatype DropZone =
  DropZoneLine (p1: Point) (p2: Point) (title: string) (accept_kind: DataKind)
    (dropAction: DropAction)

definition getDropZones :: "ImageElementAttributes \<Rightarrow> DropZone list" where
  "getDropZones attributes =
     (let a1 = x1 attributes; b1 = y1 attributes; a2 = x2 attributes; b2 = y2 attributes
      in [DropZoneLine \<lparr> pt_x = a2, pt_y = b1 \<rparr> \<lparr> pt_x = a1, pt_y = b1 \<rparr> ''width'' Numerical
            (ScaleInference ''width'' NumberType True),
          DropZoneLine \<lparr> pt_x = a1, pt_y = b1 \<rparr> \<lparr> pt_x = a1, pt_y = b2 \<rparr> ''height'' Numerical
            (ScaleInference ''height'' NumberType True)])"

text \<open>The segment between two points, as a set of points.\<close>

definition on_segment :: "Point \<Rightarrow> Point \<Rightarrow> Point \<Rightarrow> bool" where
  "on_segment a b q =
     (min (pt_x a) (pt_x b) \<le> pt_x q \<and> pt_x q \<le> max (pt_x a) (pt_x b) \<and>
      min (pt_y a) (pt_y b) \<le> pt_y q \<and> pt_y q \<le> max (pt_y a) (pt_y b) \<and>
      (pt_x b - pt_x a) * (pt_y q - pt_y a) = (pt_y b - pt_y a) * (pt_x q - pt_x a))"

subsection \<open>Graphics and getGraphics\<close>

text \<open>The properties of the mark object (\<^verbatim>\<open>this.object.properties\<close>); its field
  \<^verbatim>\<open>visible\<close> is written \<open>prop_visible\<close>, apart from the attribute of the same name.\<close>

datatype ImageMode = Letterbox | Fill | Stretch

record ImageElementProperties =
  prop_visible :: bool
  imageMode :: ImageMode

text \<open>
  A style object. A field that the code sets to \<^verbatim>\<open>null\<close> or leaves out is \<open>None\<close>.
\<close>

record Style =
  strokeColor :: "Color option"
  fillColor :: "Color option"
  style_strokeWidth :: "real option"
  strokeLinejoin :: "string option"
  style_opacity :: "real option"

text \<open>
  Modelled from the spec: the transform descriptor that \<^verbatim>\<open>getLocalTransform\<close> returns and a
  group carries (module graphics, not under src/): a translation and an angle.
\<close>

datatype RigidTransform = RigidTransform real real real

text \<open>A group: its elements in drawing order, its transform and its style, if any.\<close>

datatype 'e Group =
  Group (elements: "'e list") (transform: RigidTransform) (style: "Style option")

text \<open>
  Modelled from the spec: the graphics vocabulary (module graphics, not under src/): a
  rectangle by its corner coordinates and a style, as \<^verbatim>\<open>CoordinateSystemHelper.rect\<close>
  is called; an image with its source, its local place and size and its resize mode; a
  group.
\<close>

datatype Element =
    Rect real real real real Style
  | Image (src: string) (image_x: real) (image_y: real) (image_width: real)
      (image_height: real) (mode: ImageMode)
  | GroupElement "Element Group"

text \<open>
  Modelled from the spec: \<^verbatim>\<open>Graphics.makeGroup\<close> (not under src/) makes a group of the
  given elements, with no style and the identity placement.
\<close>

definition makeGroup :: "'e list \<Rightarrow> 'e Group" where
  "makeGroup es = Group es (RigidTransform 0 0 0) None"

text \<open>The three mutations of a group the method performs.\<close>

definition push :: "'e \<Rightarrow> 'e Group \<Rightarrow> 'e Group" where
  "push e g = Group (elements g @ [e]) (transform g) (style g)"

definition set_transform :: "RigidTransform \<Rightarrow> 'e Group \<Rightarrow> 'e Group" where
  "set_transform t g = Group (elements g) t (style g)"

definition set_style :: "Style \<Rightarrow> 'e Group \<Rightarrow> 'e Group" where
  "set_style s g = Group (elements g) (transform g) (Some s)"

text \<open>The coordinate system service: two functions the host implements.\<close>

record CoordinateSystem =
  transformPoint :: "real \<Rightarrow> real \<Rightarrow> Point"
  getLocalTransform :: "real \<Rightarrow> real \<Rightarrow> RigidTransform"

text \<open>
  Modelled from the spec: \<^verbatim>\<open>Geometry.pointDistance\<close> (module common, not under src/),
  the distance between two points.
\<close>

definition pointDistance :: "Point \<Rightarrow> Point \<Rightarrow> real" where
  "pointDistance p q = sqrt ((pt_x p - pt_x q)\<^sup>2 + (pt_y p - pt_y q)\<^sup>2)"

text \<open>The resource resolver of the chart state manager.\<close>

record ChartStateManager =
  resolveResource :: "string \<Rightarrow> string"

definition imagePlaceholder :: string where
  "imagePlaceholder =
     ''data:image/svg+xml;base64,PHN2ZyB4bWxucz0iaHR0cDovL3d3dy53My5vcmcvMjAwMC9zdmciIHZpZXdCb3g9IjAgMCAzMiAzMiI+PHRpdGxlPmljb25zPC90aXRsZT48cmVjdCB4PSI1LjE1MTI0IiB5PSI2LjY4NDYyIiB3aWR0aD0iMjEuNjk3NTIiIGhlaWdodD0iMTguNjEyNSIgc3R5bGU9ImZpbGw6bm9uZTtzdHJva2U6IzAwMDtzdHJva2UtbGluZWpvaW46cm91bmQ7c3Ryb2tlLXdpZHRoOjAuOTI2MTg0MTE3Nzk0MDM2OXB4Ii8+PHBvbHlnb24gcG9pbnRzPSIyMC4xNSAxMi45NDMgMTMuODExIDIxLjQwNCAxMC4xNTQgMTYuNDk4IDUuMTUxIDIzLjE3NiA1LjE1MSAyNS4zMDYgMTAuODg4IDI1LjMwNiAxNi43MTkgMjUuMzA2IDI2Ljg0OSAyNS4zMDYgMjYuODQ5IDIxLjkzIDIwLjE1IDEyLjk0MyIgc3R5bGU9ImZpbGwtb3BhY2l0eTowLjI7c3Ryb2tlOiMwMDA7c3Ryb2tlLWxpbmVjYXA6cm91bmQ7c3Ryb2tlLWxpbmVqb2luOnJvdW5kO3N0cm9rZS13aWR0aDowLjcwMDAwMDAwMDAwMDAwMDFweCIvPjxjaXJjbGUgY3g9IjExLjkyMDI3IiBjeT0iMTIuMzk5MjMiIHI9IjEuOTAyMTYiIHN0eWxlPSJmaWxsLW9wYWNpdHk6MC4yO3N0cm9rZTojMDAwO3N0cm9rZS1saW5lY2FwOnJvdW5kO3N0cm9rZS1saW5lam9pbjpyb3VuZDtzdHJva2Utd2lkdGg6MC43MDAwMDAwMDAwMDAwMDAxcHgiLz48L3N2Zz4=''"

text \<open>
  The result of \<open>getGraphics\<close> is the element it returns (\<open>None\<close> for \<^verbatim>\<open>null\<close>) together
  with the keys it passed to \<^verbatim>\<open>manager.resolveResource\<close>, in the order of the calls.
  The method has no \<^verbatim>\<open>throw\<close>; its only early return is the one for an invisible mark.
\<close>

text \<open>Reading a result: the primitives (rectangles and images) of an element, in drawing
  order, through every level of grouping.\<close>

fun primitives :: "Element \<Rightarrow> Element list" where
  "primitives (GroupElement (Group es t s)) = concat (map primitives es)"
| "primitives e = [e]"

definition is_rect :: "Element \<Rightarrow> bool" where
  "is_rect e = (case e of Rect _ _ _ _ _ \<Rightarrow> True | _ \<Rightarrow> False)"

text \<open>Where the images of a result are placed: for each image inside a group that is a
  child of the returned group, the transform of its group and its own place and size.\<close>

definition image_placements ::
  "Element option \<Rightarrow> (RigidTransform \<times> real \<times> real \<times> real \<times> real) list" where
  "image_placements r =
     (case r of
        Some (GroupElement g) \<Rightarrow>
          concat (map (\<lambda>e. case e of
              GroupElement gi \<Rightarrow>
                concat (map (\<lambda>i. case i of
                    Image _ x y w h _ \<Rightarrow> [(transform gi, x, y, w, h)]
                  | _ \<Rightarrow> []) (elements gi))
            | _ \<Rightarrow> []) (elements g))
      | _ \<Rightarrow> [])"

definition getGraphics ::
  "ImageElementProperties \<Rightarrow> ImageElementAttributes \<Rightarrow> CoordinateSystem \<Rightarrow> Point \<Rightarrow> nat \<Rightarrow>
   ChartStateManager \<Rightarrow> Element option \<times> string list" where
  "getGraphics properties attributes cs offset glyphIndex manager =
     (if \<not> visible attributes \<or> \<not> prop_visible properties then (None, [])
      else
        let g = makeGroup [];
            g = (case fill attributes of
                   Some c \<Rightarrow>
                     push (Rect (x1 attributes + pt_x offset) (y1 attributes + pt_y offset)
                             (x2 attributes + pt_x offset) (y2 attributes + pt_y offset)
                             \<lparr> strokeColor = None, fillColor = Some c,
                               style_strokeWidth = None, strokeLinejoin = None,
                               style_opacity = None \<rparr>) g
                 | None \<Rightarrow> g);
            mx = (x1 attributes + x2 attributes) / 2;
            my = (y1 attributes + y2 attributes) / 2;
            localWidth = pointDistance
              (transformPoint cs (x1 attributes + pt_x offset) (my + pt_y offset))
              (transformPoint cs (x2 attributes + pt_x offset) (my + pt_y offset));
            localHeight = pointDistance
              (transformPoint cs (mx + pt_x offset) (y1 attributes + pt_y offset))
              (transformPoint cs (mx + pt_x offset) (y2 attributes + pt_y offset));
            (source, calls) =
              (if image' attributes = Some '''' \<or> image' attributes = None
               then (imagePlaceholder, [])
               else (resolveResource manager (the (image' attributes)),
                     [the (image' attributes)]));
            gImage = makeGroup
              [Image source (- localWidth / 2) (- localHeight / 2) localWidth localHeight
                 (imageMode properties)];
            gImage = set_transform (getLocalTransform cs (mx + pt_x offset) (my + pt_y offset)) gImage;
            g = push (GroupElement gImage) g;
            g = (case stroke attributes of
                   Some c \<Rightarrow>
                     push (Rect (x1 attributes + pt_x offset) (y1 attributes + pt_y offset)
                             (x2 attributes + pt_x offset) (y2 attributes + pt_y offset)
                             \<lparr> strokeColor = Some c, fillColor = None,
                               style_strokeWidth = Some (strokeWidth attributes),
                               strokeLinejoin = Some ''miter'',
                               style_opacity = None \<rparr>) g
                 | None \<Rightarrow> g);
            g = set_style \<lparr> strokeColor = None, fillColor = None, style_strokeWidth = None,
                             strokeLinejoin = None, style_opacity = Some (opacity attributes) \<rparr> g
        in (Some (GroupElement g), calls))"

subsection \<open>Vocabulary of the statements\<close>

text \<open>The three style objects the method builds, and the rectangle over the box.\<close>

definition fill_style :: "Color \<Rightarrow> Style" where
  "fill_style c =
     \<lparr> strokeColor = None, fillColor = Some c, style_strokeWidth = None,
       strokeLinejoin = None, style_opacity = None \<rparr>"

definition stroke_style :: "Color \<Rightarrow> real \<Rightarrow> Style" where
  "stroke_style c w =
     \<lparr> strokeColor = Some c, fillColor = None, style_strokeWidth = Some w,
       strokeLinejoin = Some ''miter'', style_opacity = None \<rparr>"

definition opacity_style :: "real \<Rightarrow> Style" where
  "opacity_style v =
     \<lparr> strokeColor = None, fillColor = None, style_strokeWidth = None,
       strokeLinejoin = None, style_opacity = Some v \<rparr>"

definition box_rect :: "ImageElementAttributes \<Rightarrow> Point \<Rightarrow> Style \<Rightarrow> Element" where
  "box_rect a off s =
     Rect (x1 a + pt_x off) (y1 a + pt_y off) (x2 a + pt_x off) (y2 a + pt_y off) s"

text \<open>The size of the box in the coordinate system: the distances between the transformed
  midpoints of opposite edges.\<close>

definition localWidth :: "ImageElementAttributes \<Rightarrow> CoordinateSystem \<Rightarrow> Point \<Rightarrow> real" where
  "localWidth a cs off =
     pointDistance
       (transformPoint cs (x1 a + pt_x off) ((y1 a + y2 a) / 2 + pt_y off))
       (transformPoint cs (x2 a + pt_x off) ((y1 a + y2 a) / 2 + pt_y off))"

definition localHeight :: "ImageElementAttributes \<Rightarrow> CoordinateSystem \<Rightarrow> Point \<Rightarrow> real" where
  "localHeight a cs off =
     pointDistance
       (transformPoint cs ((x1 a + x2 a) / 2 + pt_x off) (y1 a + pt_y off))
       (transformPoint cs ((x1 a + x2 a) / 2 + pt_x off) (y2 a + pt_y off))"

definition image_source :: "ImageElementAttributes \<Rightarrow> ChartStateManager \<Rightarrow> string" where
  "image_source a m =
     (if image' a = Some '''' \<or> image' a = None then imagePlaceholder
      else resolveResource m (the (image' a)))"

definition image_group ::
  "ImageElementProperties \<Rightarrow> ImageElementAttributes \<Rightarrow> CoordinateSystem \<Rightarrow> Point \<Rightarrow>
   ChartStateManager \<Rightarrow> Element" where
  "image_group p a cs off m =
     GroupElement (Group
       [Image (image_source a m) (- localWidth a cs off / 2) (- localHeight a cs off / 2)
          (localWidth a cs off) (localHeight a cs off) (imageMode p)]
       (getLocalTransform cs ((x1 a + x2 a) / 2 + pt_x off) ((y1 a + y2 a) / 2 + pt_y off))
       None)"

text \<open>The primitives a result draws; nothing for \<^verbatim>\<open>null\<close>.\<close>

definition drawn :: "Element option \<Rightarrow> Element list" where
  "drawn r = (case r of None \<Rightarrow> [] | Some e \<Rightarrow> primitives e)"

definition is_image :: "Element \<Rightarrow> bool" where
  "is_image e = (case e of Image _ _ _ _ _ _ \<Rightarrow> True | _ \<Rightarrow> False)"

text \<open>The line handles of an axis.\<close>

definition lines_of :: "string \<Rightarrow> Handle list \<Rightarrow> Handle list" where
  "lines_of ax hs = filter (\<lambda>h. case h of HandleLine b _ _ _ \<Rightarrow> b = ax | _ \<Rightarrow> False) hs"

text \<open>The two ends of a span, without their order.\<close>

definition ends :: "real \<times> real \<Rightarrow> real set" where
  "ends s = {fst s, snd s}"

subsection \<open>Sample inputs\<close>

text \<open>The state \<open>initializeState\<close> leaves, the class's \<^verbatim>\<open>defaultProperties\<close>, a Cartesian
  coordinate system, the zero offset and a resolver that prefixes the key.\<close>

definition default_attributes :: ImageElementAttributes where
  "default_attributes =
     \<lparr> x1 = -15, y1 = -25, x2 = 15, y2 = 25, cx = 0, cy = 0, width = 30, height = 50,
       stroke = None, fill = None, strokeWidth = 1, opacity = 1, visible = True,
       image' = Some '''' \<rparr>"

definition defaultProperties :: ImageElementProperties where
  "defaultProperties = \<lparr> prop_visible = True, imageMode = Letterbox \<rparr>"

definition cartesian :: CoordinateSystem where
  "cartesian =
     \<lparr> transformPoint = (\<lambda>u v. \<lparr> pt_x = u, pt_y = v \<rparr>),
       getLocalTransform = (\<lambda>u v. RigidTransform u v 0) \<rparr>"

definition origin :: Point where
  "origin = \<lparr> pt_x = 0, pt_y = 0 \<rparr>"

definition sample_manager :: ChartStateManager where
  "sample_manager = \<lparr> resolveResource = (\<lambda>key. ''resolved:'' @ key) \<rparr>"

section \<open>Properties\<close>

subsection \<open>What each method computes\<close>

lemma buildConstraints_unfold:
  "buildConstraints a s = s \<lparr> linears := linears s @
     [\<lparr> strength = HARD, bias = 0,
        lhs = [(1, attr s a ''x2''), (-1, attr s a ''x1'')], rhs = [(1, attr s a ''width'')] \<rparr>,
      \<lparr> strength = HARD, bias = 0,
        lhs = [(1, attr s a ''y2''), (-1, attr s a ''y1'')], rhs = [(1, attr s a ''height'')] \<rparr>,
      \<lparr> strength = HARD, bias = 0,
        lhs = [(2, attr s a ''cx'')], rhs = [(1, attr s a ''x1''), (1, attr s a ''x2'')] \<rparr>,
      \<lparr> strength = HARD, bias = 0,
        lhs = [(2, attr s a ''cy'')], rhs = [(1, attr s a ''y1''), (1, attr s a ''y2'')] \<rparr>] \<rparr>"
  by (simp add: buildConstraints_def attrs_def addLinear_def)

lemma getHandles_unfold:
  "getHandles a =
     [HandleLine ''x'' [AttributeAction None ''x1''] (x1 a) (y1 a, y2 a),
      HandleLine ''x'' [AttributeAction None ''x2''] (x2 a) (y1 a, y2 a),
      HandleLine ''y'' [AttributeAction None ''y1''] (y1 a) (x1 a, x2 a),
      HandleLine ''y'' [AttributeAction None ''y2''] (y2 a) (x1 a, x2 a),
      HandlePoint (x1 a) (y1 a)
        [AttributeAction (Some ''x'') ''x1'', AttributeAction (Some ''y'') ''y1''],
      HandlePoint (x1 a) (y2 a)
        [AttributeAction (Some ''x'') ''x1'', AttributeAction (Some ''y'') ''y2''],
      HandlePoint (x2 a) (y1 a)
        [AttributeAction (Some ''x'') ''x2'', AttributeAction (Some ''y'') ''y1''],
      HandlePoint (x2 a) (y2 a)
        [AttributeAction (Some ''x'') ''x2'', AttributeAction (Some ''y'') ''y2'']]"
  by (simp add: getHandles_def Let_def)

lemma getDropZones_unfold:
  "getDropZones a =
     [DropZoneLine \<lparr> pt_x = x2 a, pt_y = y1 a \<rparr> \<lparr> pt_x = x1 a, pt_y = y1 a \<rparr> ''width''
        Numerical (ScaleInference ''width'' NumberType True),
      DropZoneLine \<lparr> pt_x = x1 a, pt_y = y1 a \<rparr> \<lparr> pt_x = x1 a, pt_y = y2 a \<rparr> ''height''
        Numerical (ScaleInference ''height'' NumberType True)]"
  by (simp add: getDropZones_def Let_def)

lemma on_segment_horizontal:
  "on_segment \<lparr> pt_x = u, pt_y = v \<rparr> \<lparr> pt_x = w, pt_y = v \<rparr> q =
     (pt_y q = v \<and> min u w \<le> pt_x q \<and> pt_x q \<le> max u w)"
  by (auto simp: on_segment_def)

lemma on_segment_vertical:
  "on_segment \<lparr> pt_x = u, pt_y = v \<rparr> \<lparr> pt_x = u, pt_y = w \<rparr> q =
     (pt_x q = u \<and> min v w \<le> pt_y q \<and> pt_y q \<le> max v w)"
  by (auto simp: on_segment_def)

lemma getGraphics_visible:
  assumes "visible a" and "prop_visible p"
  shows "getGraphics p a cs off i m =
    (Some (GroupElement (Group
       ((case fill a of Some c \<Rightarrow> [box_rect a off (fill_style c)] | None \<Rightarrow> []) @
        [image_group p a cs off m] @
        (case stroke a of
           Some c \<Rightarrow> [box_rect a off (stroke_style c (strokeWidth a))] | None \<Rightarrow> []))
       (RigidTransform 0 0 0) (Some (opacity_style (opacity a))))),
     if image' a = Some '''' \<or> image' a = None then [] else [the (image' a)])"
  using assms
  by (simp add: getGraphics_def Let_def makeGroup_def push_def set_transform_def set_style_def
      fill_style_def stroke_style_def opacity_style_def box_rect_def localWidth_def
      localHeight_def image_source_def image_group_def split: option.splits)

lemma getGraphics_invisible:
  "\<not> visible a \<or> \<not> prop_visible p \<Longrightarrow> getGraphics p a cs off i m = (None, [])"
  by (simp add: getGraphics_def)

lemma primitives_image_group [simp]:
  "primitives (image_group p a cs off m) =
     [Image (image_source a m) (- localWidth a cs off / 2) (- localHeight a cs off / 2)
        (localWidth a cs off) (localHeight a cs off) (imageMode p)]"
  by (simp add: image_group_def)

lemma primitives_box_rect [simp]: "primitives (box_rect a off s) = [box_rect a off s]"
  by (simp add: box_rect_def)

lemma drawn_visible:
  assumes "visible a" and "prop_visible p"
  shows "drawn (fst (getGraphics p a cs off i m)) =
     (case fill a of Some c \<Rightarrow> [box_rect a off (fill_style c)] | None \<Rightarrow> []) @
     [Image (image_source a m) (- localWidth a cs off / 2) (- localHeight a cs off / 2)
        (localWidth a cs off) (localHeight a cs off) (imageMode p)] @
     (case stroke a of
        Some c \<Rightarrow> [box_rect a off (stroke_style c (strokeWidth a))] | None \<Rightarrow> [])"
  using assms by (simp add: getGraphics_visible drawn_def split: option.splits)

lemma image_placements_visible:
  assumes "visible a" and "prop_visible p"
  shows "image_placements (fst (getGraphics p a cs off i m)) =
     [(getLocalTransform cs ((x1 a + x2 a) / 2 + pt_x off) ((y1 a + y2 a) / 2 + pt_y off),
       - localWidth a cs off / 2, - localHeight a cs off / 2,
       localWidth a cs off, localHeight a cs off)]"
  using assms
  by (cases "fill a"; cases "stroke a")
    (simp_all add: getGraphics_visible image_placements_def image_group_def box_rect_def)

subsection \<open>The claims\<close>

lemma emitted_unfold:
  "emitted a s =
     [\<lparr> strength = HARD, bias = 0,
        lhs = [(1, attr s a ''x2''), (-1, attr s a ''x1'')], rhs = [(1, attr s a ''width'')] \<rparr>,
      \<lparr> strength = HARD, bias = 0,
        lhs = [(1, attr s a ''y2''), (-1, attr s a ''y1'')], rhs = [(1, attr s a ''height'')] \<rparr>,
      \<lparr> strength = HARD, bias = 0,
        lhs = [(2, attr s a ''cx'')], rhs = [(1, attr s a ''x1''), (1, attr s a ''x2'')] \<rparr>,
      \<lparr> strength = HARD, bias = 0,
        lhs = [(2, attr s a ''cy'')], rhs = [(1, attr s a ''y1''), (1, attr s a ''y2'')] \<rparr>]"
  by (simp add: emitted_def buildConstraints_unfold)

lemma coefficients_emitted:
  "map coefficients (emitted a s) =
     [(HARD, 0, [1, -1], [1]), (HARD, 0, [1, -1], [1]),
      (HARD, 0, [2], [1, 1]), (HARD, 0, [2], [1, 1])]"
  by (simp add: emitted_unfold coefficients_def)

text \<open>
  Claim C1. For every attribute state and every solver, \<open>buildConstraints\<close> adds exactly
  four equations to the ones the solver holds and leaves its variable bindings alone.
  All four have strength HARD and constant 0; under any assignment \<open>\<rho>\<close> of numbers to the
  handles they say \<open>x2 - x1 = width\<close>, \<open>y2 - y1 = height\<close>, \<open>2 * cx = x1 + x2\<close> and
  \<open>2 * cy = y1 + y2\<close>. Their strengths, constants and coefficients are the same for any
  two attribute states and any two solvers: only the handles given by the solver differ.
\<close>

theorem buildConstraints_four_hard_equalities:
  "emitted a s =
     [\<lparr> strength = HARD, bias = 0,
        lhs = [(1, attr s a ''x2''), (-1, attr s a ''x1'')], rhs = [(1, attr s a ''width'')] \<rparr>,
      \<lparr> strength = HARD, bias = 0,
        lhs = [(1, attr s a ''y2''), (-1, attr s a ''y1'')], rhs = [(1, attr s a ''height'')] \<rparr>,
      \<lparr> strength = HARD, bias = 0,
        lhs = [(2, attr s a ''cx'')], rhs = [(1, attr s a ''x1''), (1, attr s a ''x2'')] \<rparr>,
      \<lparr> strength = HARD, bias = 0,
        lhs = [(2, attr s a ''cy'')], rhs = [(1, attr s a ''y1''), (1, attr s a ''y2'')] \<rparr>]
   \<and> linears (buildConstraints a s) = linears s @ emitted a s
   \<and> attr (buildConstraints a s) = attr s
   \<and> map (holds \<rho>) (emitted a s) =
       [\<rho> (attr s a ''x2'') - \<rho> (attr s a ''x1'') = \<rho> (attr s a ''width''),
        \<rho> (attr s a ''y2'') - \<rho> (attr s a ''y1'') = \<rho> (attr s a ''height''),
        2 * \<rho> (attr s a ''cx'') = \<rho> (attr s a ''x1'') + \<rho> (attr s a ''x2''),
        2 * \<rho> (attr s a ''cy'') = \<rho> (attr s a ''y1'') + \<rho> (attr s a ''y2'')]
   \<and> map coefficients (emitted a s) =
       [(HARD, 0, [1, -1], [1]), (HARD, 0, [1, -1], [1]),
        (HARD, 0, [2], [1, 1]), (HARD, 0, [2], [1, 1])]
   \<and> map coefficients (emitted a s) = map coefficients (emitted a' s')"
proof -
  have l: "linears (buildConstraints a s) = linears s @ emitted a s"
    by (simp add: emitted_unfold) (simp add: buildConstraints_unfold)
  have v: "attr (buildConstraints a s) = attr s"
    by (simp add: buildConstraints_unfold)
  have h: "map (holds \<rho>) (emitted a s) =
       [\<rho> (attr s a ''x2'') - \<rho> (attr s a ''x1'') = \<rho> (attr s a ''width''),
        \<rho> (attr s a ''y2'') - \<rho> (attr s a ''y1'') = \<rho> (attr s a ''height''),
        2 * \<rho> (attr s a ''cx'') = \<rho> (attr s a ''x1'') + \<rho> (attr s a ''x2''),
        2 * \<rho> (attr s a ''cy'') = \<rho> (attr s a ''y1'') + \<rho> (attr s a ''y2'')]"
    by (simp add: emitted_unfold holds_def linear_def)
  have c: "map coefficients (emitted a s) = map coefficients (emitted a' s')"
    by (simp only: coefficients_emitted)
  show ?thesis
    using emitted_unfold [of a s] l v h coefficients_emitted [of a s] c by (simp only: simp_thms)
qed

text \<open>
  Claim C2. \<open>getGraphics\<close> returns \<^verbatim>\<open>null\<close> exactly when the attribute \<^verbatim>\<open>visible\<close> or the
  property \<^verbatim>\<open>visible\<close> is false, and a group exactly when both are true. The result type
  has no error value: \<^verbatim>\<open>null\<close> is an ordinary result of the method.
\<close>

theorem getGraphics_null_iff:
  "(fst (getGraphics p a cs off i m) = None) = (\<not> visible a \<or> \<not> prop_visible p) \<and>
   (\<exists>g. fst (getGraphics p a cs off i m) = Some (GroupElement g)) =
     (visible a \<and> prop_visible p)"
proof (cases "visible a \<and> prop_visible p")
  case True
  then show ?thesis by (simp add: getGraphics_visible)
next
  case False
  then have "getGraphics p a cs off i m = (None, [])"
    by (simp add: getGraphics_invisible)
  with False show ?thesis by simp
qed

theorem getGraphics_null_iff_witness:
  "fst (getGraphics defaultProperties (default_attributes \<lparr> visible := False \<rparr>) cartesian origin 0
      sample_manager) = None \<and>
   fst (getGraphics (defaultProperties \<lparr> prop_visible := False \<rparr>) default_attributes cartesian origin 0
      sample_manager) = None \<and>
   (\<exists>g. fst (getGraphics defaultProperties default_attributes cartesian origin 0 sample_manager) =
      Some (GroupElement g))"
  using getGraphics_null_iff [of defaultProperties "default_attributes \<lparr> visible := False \<rparr>"
      cartesian origin 0 sample_manager]
    getGraphics_null_iff [of "defaultProperties \<lparr> prop_visible := False \<rparr>" default_attributes
      cartesian origin 0 sample_manager]
    getGraphics_null_iff [of defaultProperties default_attributes cartesian origin 0 sample_manager]
  by (simp add: default_attributes_def defaultProperties_def)

text \<open>
  Claim C3. For every attribute state the bounding box is the rectangle with centre the
  midpoint of the corners, width \<open>\<bar>x2 - x1\<bar>\<close>, height \<open>\<bar>y2 - y1\<bar>\<close> and rotation 0. It
  does not change when \<open>x1\<close> and \<open>x2\<close> are swapped, nor when \<open>y1\<close> and \<open>y2\<close> are, and its
  width and height are never negative.
\<close>

theorem getBoundingBox_midpoint_abs:
  "getBoundingBox a =
     Rectangle ((x1 a + x2 a) / 2) ((y1 a + y2 a) / 2) \<bar>x2 a - x1 a\<bar> \<bar>y2 a - y1 a\<bar> 0
   \<and> getBoundingBox (a \<lparr> x1 := x2 a, x2 := x1 a \<rparr>) = getBoundingBox a
   \<and> getBoundingBox (a \<lparr> y1 := y2 a, y2 := y1 a \<rparr>) = getBoundingBox a
   \<and> 0 \<le> bb_width (getBoundingBox a) \<and> 0 \<le> bb_height (getBoundingBox a)
   \<and> bb_rotation (getBoundingBox a) = 0"
  by (simp add: getBoundingBox_def Let_def add.commute abs_minus_commute)

text \<open>
  Claim C4, as stated, fails on a flipped box. With \<open>y1 = 25\<close> and \<open>y2 = -25\<close> the line
  handles of axis x carry the span \<open>(25, -25)\<close>: the corner values in the order of the
  attributes, not \<open>(min, max) = (-25, 25)\<close>.
\<close>

theorem getHandles_span_flipped_counterexample:
  "map span (lines_of ''x'' (getHandles (default_attributes \<lparr> y1 := 25, y2 := -25 \<rparr>))) =
     [(25, -25), (25, -25)]
   \<and> (min (y1 (default_attributes \<lparr> y1 := 25, y2 := -25 \<rparr>))
          (y2 (default_attributes \<lparr> y1 := 25, y2 := -25 \<rparr>)),
      max (y1 (default_attributes \<lparr> y1 := 25, y2 := -25 \<rparr>))
          (y2 (default_attributes \<lparr> y1 := 25, y2 := -25 \<rparr>))) = (-25, 25)
   \<and> span (hd (lines_of ''x'' (getHandles (default_attributes \<lparr> y1 := 25, y2 := -25 \<rparr>)))) \<noteq>
      (min (y1 (default_attributes \<lparr> y1 := 25, y2 := -25 \<rparr>))
          (y2 (default_attributes \<lparr> y1 := 25, y2 := -25 \<rparr>)),
       max (y1 (default_attributes \<lparr> y1 := 25, y2 := -25 \<rparr>))
          (y2 (default_attributes \<lparr> y1 := 25, y2 := -25 \<rparr>)))"
  by (simp add: getHandles_unfold lines_of_def default_attributes_def)

text \<open>
  Claim C4, amended. For every attribute state, flipped boxes included, each line handle
  of axis x has the span \<open>(y1, y2)\<close> and each line handle of axis y the span \<open>(x1, x2)\<close>:
  the two corner values of the other axis, in the order of the attributes. The two ends
  of the span are the minimum and the maximum of the two corner values, in some order;
  the span is the pair (minimum, maximum) exactly when the corners are in ascending
  order.
\<close>

theorem getHandles_span_corners:
  "map span (lines_of ''x'' (getHandles a)) = [(y1 a, y2 a), (y1 a, y2 a)]
   \<and> map span (lines_of ''y'' (getHandles a)) = [(x1 a, x2 a), (x1 a, x2 a)]
   \<and> map (ends \<circ> span) (lines_of ''x'' (getHandles a)) =
       [{min (y1 a) (y2 a), max (y1 a) (y2 a)}, {min (y1 a) (y2 a), max (y1 a) (y2 a)}]
   \<and> map (ends \<circ> span) (lines_of ''y'' (getHandles a)) =
       [{min (x1 a) (x2 a), max (x1 a) (x2 a)}, {min (x1 a) (x2 a), max (x1 a) (x2 a)}]
   \<and> (map span (lines_of ''x'' (getHandles a)) =
        [(min (y1 a) (y2 a), max (y1 a) (y2 a)), (min (y1 a) (y2 a), max (y1 a) (y2 a))])
       = (y1 a \<le> y2 a)
   \<and> (map span (lines_of ''y'' (getHandles a)) =
        [(min (x1 a) (x2 a), max (x1 a) (x2 a)), (min (x1 a) (x2 a), max (x1 a) (x2 a))])
       = (x1 a \<le> x2 a)"
  by (auto simp: getHandles_unfold lines_of_def ends_def min_def max_def)

text \<open>
  Claim C5, as stated, fails: the zones are not on a fixed geometric side of the box. On
  the default box (\<open>y1 = -25\<close>, \<open>y2 = 25\<close>) the zone titled "width" lies on the edge of
  the smaller y and not on the edge of the larger y; on the flipped box (\<open>y1 = 25\<close>,
  \<open>y2 = -25\<close>) it lies on the edge of the larger y and not on the edge of the smaller y.
  So whichever of the two is called the top edge, one of the two states has the zone on
  the other one. The zone titled "height" does the same between the default box
  (\<open>x1 = -15\<close>, \<open>x2 = 15\<close>) and the box flipped in x (\<open>x1 = 15\<close>, \<open>x2 = -15\<close>).
\<close>

theorem getDropZones_side_counterexample:
  "pt_y (p1 (getDropZones default_attributes ! 0)) =
     min (y1 default_attributes) (y2 default_attributes)
   \<and> pt_y (p1 (getDropZones default_attributes ! 0)) \<noteq>
     max (y1 default_attributes) (y2 default_attributes)
   \<and> pt_y (p1 (getDropZones (default_attributes \<lparr> y1 := 25, y2 := -25 \<rparr>) ! 0)) =
     max (y1 (default_attributes \<lparr> y1 := 25, y2 := -25 \<rparr>))
       (y2 (default_attributes \<lparr> y1 := 25, y2 := -25 \<rparr>))
   \<and> pt_y (p1 (getDropZones (default_attributes \<lparr> y1 := 25, y2 := -25 \<rparr>) ! 0)) \<noteq>
     min (y1 (default_attributes \<lparr> y1 := 25, y2 := -25 \<rparr>))
       (y2 (default_attributes \<lparr> y1 := 25, y2 := -25 \<rparr>))
   \<and> pt_x (p1 (getDropZones default_attributes ! 1)) =
     min (x1 default_attributes) (x2 default_attributes)
   \<and> pt_x (p1 (getDropZones default_attributes ! 1)) \<noteq>
     max (x1 default_attributes) (x2 default_attributes)
   \<and> pt_x (p1 (getDropZones (default_attributes \<lparr> x1 := 15, x2 := -15 \<rparr>) ! 1)) =
     max (x1 (default_attributes \<lparr> x1 := 15, x2 := -15 \<rparr>))
       (x2 (default_attributes \<lparr> x1 := 15, x2 := -15 \<rparr>))
   \<and> pt_x (p1 (getDropZones (default_attributes \<lparr> x1 := 15, x2 := -15 \<rparr>) ! 1)) \<noteq>
     min (x1 (default_attributes \<lparr> x1 := 15, x2 := -15 \<rparr>))
       (x2 (default_attributes \<lparr> x1 := 15, x2 := -15 \<rparr>))"
  by (simp add: getDropZones_unfold default_attributes_def)

text \<open>
  Claim C5, amended. For every attribute state \<open>getDropZones\<close> returns exactly two line
  zones. The first is titled "width" and runs along the edge \<open>y = y1\<close> of the box, from
  \<open>(x2, y1)\<close> to \<open>(x1, y1)\<close>; the second is titled "height" and runs along the edge
  \<open>x = x1\<close>, from \<open>(x1, y1)\<close> to \<open>(x1, y2)\<close>. The edges are the ones the attributes \<open>y1\<close>
  and \<open>x1\<close> name, whatever side of the box they are on: the first zone is on the edge of
  the smaller y exactly when \<open>y1 \<le> y2\<close>, and the second on the edge of the smaller x
  exactly when \<open>x1 \<le> x2\<close>. Each zone accepts numerical data, and its drop action is a
  scale inference on the attribute of its title, of type number, with \<^verbatim>\<open>autoRange\<close> true.
\<close>

theorem getDropZones_two_edges:
  "getDropZones a =
     [DropZoneLine \<lparr> pt_x = x2 a, pt_y = y1 a \<rparr> \<lparr> pt_x = x1 a, pt_y = y1 a \<rparr> ''width''
        Numerical (ScaleInference ''width'' NumberType True),
      DropZoneLine \<lparr> pt_x = x1 a, pt_y = y1 a \<rparr> \<lparr> pt_x = x1 a, pt_y = y2 a \<rparr> ''height''
        Numerical (ScaleInference ''height'' NumberType True)]
   \<and> length (getDropZones a) = 2
   \<and> map title (getDropZones a) = [''width'', ''height'']
   \<and> map accept_kind (getDropZones a) = [Numerical, Numerical]
   \<and> map dropAction (getDropZones a) =
       [ScaleInference ''width'' NumberType True, ScaleInference ''height'' NumberType True]
   \<and> map (\<lambda>z. on_segment (p1 z) (p2 z) q) (getDropZones a) =
       [pt_y q = y1 a \<and> min (x2 a) (x1 a) \<le> pt_x q \<and> pt_x q \<le> max (x2 a) (x1 a),
        pt_x q = x1 a \<and> min (y1 a) (y2 a) \<le> pt_y q \<and> pt_y q \<le> max (y1 a) (y2 a)]
   \<and> (pt_y (p1 (getDropZones a ! 0)) = min (y1 a) (y2 a)) = (y1 a \<le> y2 a)
   \<and> (pt_y (p2 (getDropZones a ! 0)) = min (y1 a) (y2 a)) = (y1 a \<le> y2 a)
   \<and> (pt_x (p1 (getDropZones a ! 1)) = min (x1 a) (x2 a)) = (x1 a \<le> x2 a)
   \<and> (pt_x (p2 (getDropZones a ! 1)) = min (x1 a) (x2 a)) = (x1 a \<le> x2 a)"
  by (auto simp: getDropZones_unfold on_segment_horizontal on_segment_vertical min_def)

text \<open>
  Claim C8. For every attribute state \<open>getHandles\<close> returns eight handles: four lines and
  four points. Each line handle has exactly one action, and the four write \<open>x1\<close>, \<open>x2\<close>,
  \<open>y1\<close> and \<open>y2\<close>, one each. Each point handle sits at a corner of the box and has exactly
  two actions, which write the x attribute and the y attribute of that corner.
\<close>

theorem getHandles_four_lines_four_points:
  "length (getHandles a) = 8
   \<and> length (filter is_line (getHandles a)) = 4
   \<and> length (filter is_point (getHandles a)) = 4
   \<and> map line_actions (filter is_line (getHandles a)) =
       [[AttributeAction None ''x1''], [AttributeAction None ''x2''],
        [AttributeAction None ''y1''], [AttributeAction None ''y2'']]
   \<and> map written (filter is_line (getHandles a)) = [[''x1''], [''x2''], [''y1''], [''y2'']]
   \<and> map (\<lambda>h. (point_x h, point_y h, written h)) (filter is_point (getHandles a)) =
       [(x1 a, y1 a, [''x1'', ''y1'']), (x1 a, y2 a, [''x1'', ''y2'']),
        (x2 a, y1 a, [''x2'', ''y1'']), (x2 a, y2 a, [''x2'', ''y2''])]"
  by (simp add: getHandles_unfold is_line_def is_point_def written_def)

text \<open>
  Claim C9. \<open>initializeState\<close> is a total function of the store. Whatever the store held
  before, afterwards every declared attribute is defined, with the value: corners
  \<open>(-15, -25, 15, 25)\<close>, centre \<open>(0, 0)\<close>, width 30, height 50, stroke and fill
  \<^verbatim>\<open>null\<close>, stroke width 1, opacity 1, visible true and the empty image reference. The
  store then reads as a well-typed attribute record, whose bounding box is the rectangle
  of centre \<open>(0, 0)\<close>, width 30, height 50 and rotation 0.
\<close>

theorem initializeState_defaults:
  "map (initializeState m) attributeNames =
     [Some (Number (-15)), Some (Number (-25)), Some (Number 15), Some (Number 25),
      Some (Number 0), Some (Number 0), Some (Number 30), Some (Number 50),
      Some Null, Some Null, Some (Number 1), Some (Number 1),
      Some (Boolean True), Some (Text '''')]
   \<and> set attributeNames \<subseteq> dom (initializeState m)
   \<and> typed_attributes (initializeState m) =
       Some \<lparr> x1 = -15, y1 = -25, x2 = 15, y2 = 25, cx = 0, cy = 0, width = 30, height = 50,
              stroke = None, fill = None, strokeWidth = 1, opacity = 1, visible = True,
              image' = Some '''' \<rparr>
   \<and> map_option getBoundingBox (typed_attributes (initializeState m)) =
       Some (Rectangle 0 0 30 50 0)"
proof -
  have t: "typed_attributes (initializeState m) =
       Some \<lparr> x1 = -15, y1 = -25, x2 = 15, y2 = 25, cx = 0, cy = 0, width = 30, height = 50,
              stroke = None, fill = None, strokeWidth = 1, opacity = 1, visible = True,
              image' = Some '''' \<rparr>"
    by (simp add: initializeState_def typed_attributes_def number_at_def color_at_def
        boolean_at_def text_at_def)
  have n: "map (initializeState m) attributeNames =
     [Some (Number (-15)), Some (Number (-25)), Some (Number 15), Some (Number 25),
      Some (Number 0), Some (Number 0), Some (Number 30), Some (Number 50),
      Some Null, Some Null, Some (Number 1), Some (Number 1),
      Some (Boolean True), Some (Text '''')]"
    by (simp add: initializeState_def attributeNames_def)
  have d: "set attributeNames \<subseteq> dom (initializeState m)"
    by (simp add: initializeState_def attributeNames_def)
  have b: "map_option getBoundingBox (typed_attributes (initializeState m)) =
       Some (Rectangle 0 0 30 50 0)"
    by (simp add: t getBoundingBox_def Let_def)
  show ?thesis using t n d b by (simp only: simp_thms)
qed

text \<open>
  Claim C6, as stated, fails when only the attribute \<^verbatim>\<open>visible\<close> is true. In the default
  state, with the property \<^verbatim>\<open>visible\<close> false, the method returns \<^verbatim>\<open>null\<close>: there is no
  group, no image primitive and no placeholder source.
\<close>

theorem getGraphics_image_source_counterexample:
  "visible default_attributes
   \<and> image' default_attributes = Some ''''
   \<and> fst (getGraphics (defaultProperties \<lparr> prop_visible := False \<rparr>) default_attributes
        cartesian origin 0 sample_manager) = None
   \<and> map src (filter is_image (drawn (fst
        (getGraphics (defaultProperties \<lparr> prop_visible := False \<rparr>) default_attributes
           cartesian origin 0 sample_manager)))) \<noteq> [imagePlaceholder]"
  by (simp add: getGraphics_invisible drawn_def default_attributes_def)

text \<open>
  Claim C6, amended. For every attribute state with the attribute \<^verbatim>\<open>visible\<close> true, and
  with the property \<^verbatim>\<open>visible\<close> of the mark true as well, the result draws exactly one
  image. If the attribute \<^verbatim>\<open>image\<close> is the empty
  string or \<^verbatim>\<open>null\<close>, its source is the built-in placeholder and the resource resolver
  is not called; otherwise its source is what the resolver returns for the attribute
  value, and the resolver is called once, with that value. With an empty or
  \<^verbatim>\<open>null\<close> image, no fill and no stroke (the default state is one such state), the
  returned group has exactly one element, the group of the placeholder image, and draws
  no rectangle.
\<close>

theorem getGraphics_image_source:
  assumes "visible a" and "prop_visible p"
  shows "map src (filter is_image (drawn (fst (getGraphics p a cs off i m)))) =
           [if image' a = Some '''' \<or> image' a = None then imagePlaceholder
            else resolveResource m (the (image' a))]
     \<and> snd (getGraphics p a cs off i m) =
           (if image' a = Some '''' \<or> image' a = None then [] else [the (image' a)])
     \<and> ((image' a = Some '''' \<or> image' a = None) \<and> fill a = None \<and> stroke a = None \<longrightarrow>
           fst (getGraphics p a cs off i m) =
             Some (GroupElement (Group
               [GroupElement (Group
                  [Image imagePlaceholder (- localWidth a cs off / 2) (- localHeight a cs off / 2)
                     (localWidth a cs off) (localHeight a cs off) (imageMode p)]
                  (getLocalTransform cs ((x1 a + x2 a) / 2 + pt_x off)
                     ((y1 a + y2 a) / 2 + pt_y off))
                  None)]
               (RigidTransform 0 0 0) (Some (opacity_style (opacity a)))))
           \<and> filter is_rect (drawn (fst (getGraphics p a cs off i m))) = [])"
proof -
  have s: "map src (filter is_image (drawn (fst (getGraphics p a cs off i m)))) =
           [if image' a = Some '''' \<or> image' a = None then imagePlaceholder
            else resolveResource m (the (image' a))]"
    using assms
    by (cases "fill a"; cases "stroke a")
      (simp_all add: drawn_visible is_image_def box_rect_def image_source_def)
  have c: "snd (getGraphics p a cs off i m) =
           (if image' a = Some '''' \<or> image' a = None then [] else [the (image' a)])"
    using assms by (simp add: getGraphics_visible)
  have d: "fst (getGraphics p a cs off i m) =
             Some (GroupElement (Group
               [GroupElement (Group
                  [Image imagePlaceholder (- localWidth a cs off / 2) (- localHeight a cs off / 2)
                     (localWidth a cs off) (localHeight a cs off) (imageMode p)]
                  (getLocalTransform cs ((x1 a + x2 a) / 2 + pt_x off)
                     ((y1 a + y2 a) / 2 + pt_y off))
                  None)]
               (RigidTransform 0 0 0) (Some (opacity_style (opacity a)))))
           \<and> filter is_rect (drawn (fst (getGraphics p a cs off i m))) = []"
    if "image' a = Some '''' \<or> image' a = None" and "fill a = None" and "stroke a = None"
  proof -
    have "image_source a m = imagePlaceholder"
      using that(1) by (simp add: image_source_def)
    moreover have "filter is_rect (drawn (fst (getGraphics p a cs off i m))) = []"
      using assms that(2,3) by (simp add: drawn_visible is_rect_def)
    ultimately show ?thesis
      using assms that(2,3) by (simp add: getGraphics_visible image_group_def)
  qed
  show ?thesis using s c d by blast
qed

theorem getGraphics_image_source_witness:
  "visible default_attributes \<and> prop_visible defaultProperties
   \<and> snd (getGraphics defaultProperties default_attributes cartesian origin 0 sample_manager) = []
   \<and> map src (filter is_image (drawn (fst
        (getGraphics defaultProperties default_attributes cartesian origin 0 sample_manager)))) =
       [imagePlaceholder]
   \<and> filter is_rect (drawn (fst
        (getGraphics defaultProperties default_attributes cartesian origin 0 sample_manager))) = []
   \<and> snd (getGraphics defaultProperties (default_attributes \<lparr> image' := Some ''logo'' \<rparr>)
        cartesian origin 0 sample_manager) = [''logo'']
   \<and> map src (filter is_image (drawn (fst
        (getGraphics defaultProperties (default_attributes \<lparr> image' := Some ''logo'' \<rparr>)
           cartesian origin 0 sample_manager)))) = [''resolved:logo'']"
proof -
  have v: "visible default_attributes" "prop_visible defaultProperties"
    "visible (default_attributes \<lparr> image' := Some ''logo'' \<rparr>)"
    by (simp_all add: default_attributes_def defaultProperties_def)
  have e: "image' default_attributes = Some ''''" "fill default_attributes = None"
    "stroke default_attributes = None"
    "image' (default_attributes \<lparr> image' := Some ''logo'' \<rparr>) = Some ''logo''"
    by (simp_all add: default_attributes_def)
  show ?thesis
    using getGraphics_image_source [OF v(1) v(2), of cartesian origin 0 sample_manager]
      getGraphics_image_source [OF v(3) v(2), of cartesian origin 0 sample_manager]
    by (simp add: v e sample_manager_def drawn_def is_image_def is_rect_def)
qed

text \<open>
  Claim C7, as stated, fails when only the attribute \<^verbatim>\<open>visible\<close> is true. With a fill
  and a stroke set and the property \<^verbatim>\<open>visible\<close> false, the method returns \<^verbatim>\<open>null\<close>, not
  a group of three elements.
\<close>

theorem getGraphics_fill_image_stroke_counterexample:
  "visible (default_attributes \<lparr> stroke := Some (Color 0 0 0), fill := Some (Color 255 0 0) \<rparr>)
   \<and> fill (default_attributes \<lparr> stroke := Some (Color 0 0 0), fill := Some (Color 255 0 0) \<rparr>)
       = Some (Color 255 0 0)
   \<and> stroke (default_attributes \<lparr> stroke := Some (Color 0 0 0), fill := Some (Color 255 0 0) \<rparr>)
       = Some (Color 0 0 0)
   \<and> fst (getGraphics (defaultProperties \<lparr> prop_visible := False \<rparr>)
        (default_attributes \<lparr> stroke := Some (Color 0 0 0), fill := Some (Color 255 0 0) \<rparr>)
        cartesian origin 0 sample_manager) = None
   \<and> drawn (fst (getGraphics (defaultProperties \<lparr> prop_visible := False \<rparr>)
        (default_attributes \<lparr> stroke := Some (Color 0 0 0), fill := Some (Color 255 0 0) \<rparr>)
        cartesian origin 0 sample_manager)) = []"
  by (simp add: getGraphics_invisible drawn_def default_attributes_def)

text \<open>
  Claim C7, amended. For every attribute state with the attribute \<^verbatim>\<open>visible\<close> true and the
  property \<^verbatim>\<open>visible\<close> of the mark true as well, whose fill and stroke are both
  colours, the returned group has three elements, in this order: the rectangle over the
  box filled with the fill colour and without stroke; the group of the image; the
  rectangle over the box stroked with the stroke colour, at the attribute's stroke width,
  with a miter join and without fill. The style of the returned group is the opacity of
  the instance.
\<close>

theorem getGraphics_fill_image_stroke:
  assumes "visible a" and "prop_visible p" and "fill a = Some f" and "stroke a = Some s"
  shows "fst (getGraphics p a cs off i m) =
     Some (GroupElement (Group
       [Rect (x1 a + pt_x off) (y1 a + pt_y off) (x2 a + pt_x off) (y2 a + pt_y off)
          \<lparr> strokeColor = None, fillColor = Some f, style_strokeWidth = None,
            strokeLinejoin = None, style_opacity = None \<rparr>,
        GroupElement (Group
          [Image (image_source a m) (- localWidth a cs off / 2) (- localHeight a cs off / 2)
             (localWidth a cs off) (localHeight a cs off) (imageMode p)]
          (getLocalTransform cs ((x1 a + x2 a) / 2 + pt_x off) ((y1 a + y2 a) / 2 + pt_y off))
          None),
        Rect (x1 a + pt_x off) (y1 a + pt_y off) (x2 a + pt_x off) (y2 a + pt_y off)
          \<lparr> strokeColor = Some s, fillColor = None, style_strokeWidth = Some (strokeWidth a),
            strokeLinejoin = Some ''miter'', style_opacity = None \<rparr>]
       (RigidTransform 0 0 0)
       (Some \<lparr> strokeColor = None, fillColor = None, style_strokeWidth = None,
               strokeLinejoin = None, style_opacity = Some (opacity a) \<rparr>)))"
  using assms
  by (simp add: getGraphics_visible image_group_def box_rect_def fill_style_def
      stroke_style_def opacity_style_def)

theorem getGraphics_fill_image_stroke_witness:
  "\<exists>gi. fst (getGraphics defaultProperties
        (default_attributes \<lparr> stroke := Some (Color 0 0 0), fill := Some (Color 255 0 0),
           strokeWidth := 2, opacity := 1 / 2 \<rparr>)
        cartesian origin 0 sample_manager) =
     Some (GroupElement (Group
       [Rect (-15) (-25) 15 25
          \<lparr> strokeColor = None, fillColor = Some (Color 255 0 0), style_strokeWidth = None,
            strokeLinejoin = None, style_opacity = None \<rparr>,
        GroupElement gi,
        Rect (-15) (-25) 15 25
          \<lparr> strokeColor = Some (Color 0 0 0), fillColor = None, style_strokeWidth = Some 2,
            strokeLinejoin = Some ''miter'', style_opacity = None \<rparr>]
       (RigidTransform 0 0 0)
       (Some \<lparr> strokeColor = None, fillColor = None, style_strokeWidth = None,
               strokeLinejoin = None, style_opacity = Some (1 / 2) \<rparr>)))"
  using getGraphics_fill_image_stroke [of
      "default_attributes \<lparr> stroke := Some (Color 0 0 0), fill := Some (Color 255 0 0),
           strokeWidth := 2, opacity := 1 / 2 \<rparr>"
      defaultProperties "Color 255 0 0" "Color 0 0 0" cartesian origin 0 sample_manager]
  by (simp add: default_attributes_def defaultProperties_def origin_def)

text \<open>
  Claim C10. Let two attribute states agree on the corners \<open>x1\<close>, \<open>y1\<close>, \<open>x2\<close>, \<open>y2\<close>.
  Then their bounding boxes are equal; if they also agree on \<^verbatim>\<open>visible\<close>, their images
  are placed identically (same transform of the image group, same place and size of the
  image) under the same properties, coordinate system and offset; and if they agree on
  all the style attributes and on the image, the whole result of \<open>getGraphics\<close>, resolver
  calls included, is the same. The stored \<open>cx\<close>, \<open>cy\<close>, \<open>width\<close> and \<open>height\<close> play no
  part.
\<close>

theorem corners_decide_box_and_placement:
  assumes "x1 a = x1 b" and "y1 a = y1 b" and "x2 a = x2 b" and "y2 a = y2 b"
  shows "getBoundingBox a = getBoundingBox b
     \<and> (visible a = visible b \<longrightarrow>
          image_placements (fst (getGraphics p a cs off i m)) =
          image_placements (fst (getGraphics p b cs off i m)))
     \<and> (stroke a = stroke b \<and> fill a = fill b \<and> strokeWidth a = strokeWidth b \<and>
        opacity a = opacity b \<and> visible a = visible b \<and> image' a = image' b \<longrightarrow>
          getGraphics p a cs off i m = getGraphics p b cs off i m)"
proof -
  have w: "localWidth a cs off = localWidth b cs off"
    and h: "localHeight a cs off = localHeight b cs off"
    using assms by (simp_all add: localWidth_def localHeight_def)
  have bb: "getBoundingBox a = getBoundingBox b"
    using assms by (simp add: getBoundingBox_def)
  have pl: "image_placements (fst (getGraphics p a cs off i m)) =
          image_placements (fst (getGraphics p b cs off i m))" if "visible a = visible b"
  proof (cases "visible a \<and> prop_visible p")
    case True
    with that have "visible b \<and> prop_visible p" by simp
    with True show ?thesis
      using assms by (simp add: image_placements_visible w h)
  next
    case False
    with that have "\<not> visible b \<or> \<not> prop_visible p" by simp
    with False show ?thesis
      by (simp add: getGraphics_invisible)
  qed
  have eq: "getGraphics p a cs off i m = getGraphics p b cs off i m"
    if "stroke a = stroke b" and "fill a = fill b" and "strokeWidth a = strokeWidth b"
      and "opacity a = opacity b" and "visible a = visible b" and "image' a = image' b"
  proof (cases "visible a \<and> prop_visible p")
    case True
    with that have vb: "visible b \<and> prop_visible p" by simp
    have r: "box_rect a off st = box_rect b off st" for st
      using assms by (simp add: box_rect_def)
    have g: "image_group p a cs off m = image_group p b cs off m"
      using assms that(6) by (simp add: image_group_def image_source_def w h)
    from True vb show ?thesis
      using that
      by (cases "fill b"; cases "stroke b") (simp_all add: getGraphics_visible r g)
  next
    case False
    with that have "\<not> visible b \<or> \<not> prop_visible p" by simp
    with False show ?thesis
      by (simp add: getGraphics_invisible)
  qed
  show ?thesis using bb pl eq by blast
qed

theorem corners_decide_box_and_placement_witness:
  "getBoundingBox (default_attributes \<lparr> cx := 99, cy := -7, width := 1, height := 2 \<rparr>) =
     getBoundingBox default_attributes
   \<and> getGraphics defaultProperties
       (default_attributes \<lparr> cx := 99, cy := -7, width := 1, height := 2 \<rparr>)
       cartesian origin 0 sample_manager =
     getGraphics defaultProperties default_attributes cartesian origin 0 sample_manager
   \<and> image_placements (fst (getGraphics defaultProperties
       (default_attributes \<lparr> cx := 99, cy := -7, width := 1, height := 2, opacity := 0 \<rparr>)
       cartesian origin 0 sample_manager)) =
     image_placements (fst
       (getGraphics defaultProperties default_attributes cartesian origin 0 sample_manager))"
  using corners_decide_box_and_placement [of
      "default_attributes \<lparr> cx := 99, cy := -7, width := 1, height := 2 \<rparr>" default_attributes
      defaultProperties cartesian origin 0 sample_manager]
    corners_decide_box_and_placement [of
      "default_attributes \<lparr> cx := 99, cy := -7, width := 1, height := 2, opacity := 0 \<rparr>"
      default_attributes defaultProperties cartesian origin 0 sample_manager]
  by simp

end
